theory Spec2Isabelle
  imports Main "HOL-Library.Word"
begin

unbundle bit_operations_syntax

section \<open>Strings\<close>

text \<open>
  A JavaScript string is modelled by the byte list of its UTF-8 encoding, so an ASCII
  character is one \<^typ>\<open>char\<close> and any other character is the two to four bytes
  (all of them \<open>\<ge> 0x80\<close>) that encode it. Strings with unpaired surrogates have no
  UTF-8 encoding and are outside the model.
\<close>

definition chr :: "nat \<Rightarrow> char" where
  "chr n = char_of n"

definition ord :: "char \<Rightarrow> nat" where
  "ord c = of_char c"

text \<open>
  The regular expression class \<open>\s\<close> of ECMAScript: TAB, LF, VT, FF, CR, SPACE, and
  beyond ASCII U+00A0, U+1680, U+2000..U+200A, U+2028, U+2029, U+202F, U+205F, U+3000
  and U+FEFF. \<open>ws_prefix s\<close> is the number of bytes of the white-space character that
  \<open>s\<close> starts with, and 0 when it starts with none.
\<close>

fun ws_prefix :: "string \<Rightarrow> nat" where
  "ws_prefix [] = 0"
| "ws_prefix (c # cs) =
     (let a = ord c; bs = map ord (take 2 cs) in
      if a \<in> {9, 10, 11, 12, 13, 32} then 1
      else if a = 0xC2 \<and> take 1 bs = [0xA0] then 2
      else if a = 0xE1 \<and> bs = [0x9A, 0x80] then 3
      else if a = 0xE2 \<and> take 1 bs = [0x80] \<and> length bs = 2 \<and>
              (0x80 \<le> bs ! 1 \<and> bs ! 1 \<le> 0x8A \<or> bs ! 1 \<in> {0xA8, 0xA9, 0xAF}) then 3
      else if a = 0xE2 \<and> bs = [0x81, 0x9F] then 3
      else if a = 0xE3 \<and> bs = [0x80, 0x80] then 3
      else if a = 0xEF \<and> bs = [0xBB, 0xBF] then 3
      else 0)"

text \<open>\<^verbatim>\<open>s.replace(/\s/g, '')\<close>\<close>

function remove_whitespace :: "string \<Rightarrow> string" where
  "remove_whitespace [] = []"
| "remove_whitespace (c # cs) =
     (if ws_prefix (c # cs) = 0 then c # remove_whitespace cs
      else remove_whitespace (drop (ws_prefix (c # cs)) (c # cs)))"
  by pat_completeness auto
termination
  by (relation "measure length") auto

text \<open>
  \<^verbatim>\<open>s.toUpperCase()\<close>. ASCII letters go to their capitals. The characters beyond
  ASCII whose Unicode upper-case form is made of ASCII letters only are listed: U+0131
  and U+017F (to I and S), U+00DF (to SS) and the ligatures U+FB00..U+FB06. Every other
  character beyond ASCII has an upper-case form that again contains a character beyond
  ASCII; the model leaves those bytes as they are, and every caller below compares the
  result with ASCII text only.
\<close>

definition upper_ascii :: "char \<Rightarrow> char" where
  "upper_ascii c = (if 97 \<le> ord c \<and> ord c \<le> 122 then chr (ord c - 32) else c)"

fun toUpperCase :: "string \<Rightarrow> string" where
  "toUpperCase [] = []"
| "toUpperCase (c # cs) =
     (let a = ord c; bs = map ord (take 2 cs) in
      if a = 0xC4 \<and> take 1 bs = [0xB1] then ''I'' @ toUpperCase (drop 1 cs)
      else if a = 0xC5 \<and> take 1 bs = [0xBF] then ''S'' @ toUpperCase (drop 1 cs)
      else if a = 0xC3 \<and> take 1 bs = [0x9F] then ''SS'' @ toUpperCase (drop 1 cs)
      else if a = 0xEF \<and> bs = [0xAC, 0x80] then ''FF'' @ toUpperCase (drop 2 cs)
      else if a = 0xEF \<and> bs = [0xAC, 0x81] then ''FI'' @ toUpperCase (drop 2 cs)
      else if a = 0xEF \<and> bs = [0xAC, 0x82] then ''FL'' @ toUpperCase (drop 2 cs)
      else if a = 0xEF \<and> bs = [0xAC, 0x83] then ''FFI'' @ toUpperCase (drop 2 cs)
      else if a = 0xEF \<and> bs = [0xAC, 0x84] then ''FFL'' @ toUpperCase (drop 2 cs)
      else if a = 0xEF \<and> bs = [0xAC, 0x85] then ''ST'' @ toUpperCase (drop 2 cs)
      else if a = 0xEF \<and> bs = [0xAC, 0x86] then ''ST'' @ toUpperCase (drop 2 cs)
      else upper_ascii c # toUpperCase cs)"

section \<open>Errors\<close>

text \<open>
  Every \<^verbatim>\<open>throw new Error(msg)\<close> of the service is a constructor; the two wrappers
  stand for the messages that \<^verbatim>\<open>generateTOTP\<close> and \<^verbatim>\<open>parseOTPAuthURL\<close> build
  around the error they caught.
\<close>

datatype error =
    SecretNotNonEmptyString
  | SecretNotBase32
  | SecretTooShort
  | InvalidURL
  | URIMalformed
  | InvalidProtocol
  | UnsupportedType
  | SecretRequired
  | InvalidSecretFormat
  | LibraryFailure
  | FailedToGenerate error
  | InvalidOTPAuthURL error

section \<open>Secret validation\<close>

definition is_base32_char :: "char \<Rightarrow> bool" where
  "is_base32_char c \<longleftrightarrow> (65 \<le> ord c \<and> ord c \<le> 90) \<or> (50 \<le> ord c \<and> ord c \<le> 55)"

text \<open>\<^verbatim>\<open>/^[A-Z2-7]+=*$/.test(s)\<close>: the longest run of alphabet characters is not
  empty and only \<open>=\<close> follows it.\<close>

definition test_base32 :: "string \<Rightarrow> bool" where
  "test_base32 s \<longleftrightarrow>
     takeWhile is_base32_char s \<noteq> [] \<and> list_all (\<lambda>c. c = CHR ''='') (dropWhile is_base32_char s)"

text \<open>\<^verbatim>\<open>s.replace(/=+$/, '')\<close>\<close>

definition strip_padding :: "string \<Rightarrow> string" where
  "strip_padding s = rev (dropWhile (\<lambda>c. c = CHR ''='') (rev s))"

definition validateAndCleanSecret :: "string \<Rightarrow> error + string" where
  "validateAndCleanSecret secret =
     (if secret = [] then Inl SecretNotNonEmptyString
      else let cleaned = toUpperCase (remove_whitespace secret) in
        if \<not> test_base32 cleaned then Inl SecretNotBase32
        else let withoutPadding = strip_padding cleaned in
          if length withoutPadding < 8 then Inl SecretTooShort
          else Inr cleaned)"

definition validateSecret :: "string \<Rightarrow> bool" where
  "validateSecret secret =
     (case validateAndCleanSecret secret of Inl e \<Rightarrow> False | Inr cleaned \<Rightarrow> length cleaned > 0)"

section \<open>Hash functions, HMAC and HOTP\<close>

text \<open>
  Modelled from the spec: the one-time-password engine behind \<^verbatim>\<open>totp.generate\<close> and
  \<^verbatim>\<open>totp.check\<close> belongs to the imported package \<^verbatim>\<open>@otplib/preset-browser\<close>, of which
  the repository holds only the type declaration and the calls. The spec describes it:
  HMAC over SHA-1, SHA-256 or SHA-512 with the decoded secret as key and the counter as
  8-byte big-endian message, dynamic truncation, a zero-padded decimal code. The hash
  functions follow FIPS 180-4 and HMAC follows RFC 2104, which the spec names through
  RFC 4226. Bytes and machine words are natural numbers, every sum is cut to the word
  size with \<open>AND\<close>.
\<close>

type_synonym byte = nat

definition add32 :: "nat \<Rightarrow> nat \<Rightarrow> nat" where
  "add32 a b = (a + b) AND 0xFFFFFFFF"

definition rotl32 :: "nat \<Rightarrow> nat \<Rightarrow> nat" where
  "rotl32 n x = (push_bit n x AND 0xFFFFFFFF) OR drop_bit (32 - n) x"

definition rotr32 :: "nat \<Rightarrow> nat \<Rightarrow> nat" where
  "rotr32 n x = drop_bit n x OR (push_bit (32 - n) x AND 0xFFFFFFFF)"

definition not32 :: "nat \<Rightarrow> nat" where
  "not32 x = x XOR 0xFFFFFFFF"

definition add64 :: "nat \<Rightarrow> nat \<Rightarrow> nat" where
  "add64 a b = (a + b) AND 0xFFFFFFFFFFFFFFFF"

definition rotr64 :: "nat \<Rightarrow> nat \<Rightarrow> nat" where
  "rotr64 n x = drop_bit n x OR (push_bit (64 - n) x AND 0xFFFFFFFFFFFFFFFF)"

definition not64 :: "nat \<Rightarrow> nat" where
  "not64 x = x XOR 0xFFFFFFFFFFFFFFFF"

text \<open>Big-endian conversions between bytes and words.\<close>

fun be_word :: "byte list \<Rightarrow> nat" where
  "be_word [] = 0"
| "be_word (b # bs) = push_bit (8 * length bs) b + be_word bs"

fun be_words :: "nat \<Rightarrow> byte list \<Rightarrow> nat list" where
  "be_words n bs = (if n = 0 \<or> bs = [] then [] else be_word (take n bs) # be_words n (drop n bs))"

fun be_bytes :: "nat \<Rightarrow> nat \<Rightarrow> byte list" where
  "be_bytes 0 x = []"
| "be_bytes (Suc n) x = (drop_bit (8 * n) x AND 0xFF) # be_bytes n x"

fun chunks :: "nat \<Rightarrow> 'a list \<Rightarrow> 'a list list" where
  "chunks n xs = (if n = 0 \<or> xs = [] then [] else take n xs # chunks n (drop n xs))"

text \<open>Padding: a 1 bit, zeros, and the bit length in \<open>lenbytes\<close> bytes, up to a
  multiple of the block size.\<close>

definition md_pad :: "nat \<Rightarrow> nat \<Rightarrow> byte list \<Rightarrow> byte list" where
  "md_pad blk lenbytes m =
     m @ [0x80] @ replicate ((blk - (length m + 1 + lenbytes) mod blk) mod blk) 0
       @ be_bytes lenbytes (8 * length m)"

subsection \<open>SHA-1\<close>

definition sha1_f :: "nat \<Rightarrow> nat \<Rightarrow> nat \<Rightarrow> nat \<Rightarrow> nat" where
  "sha1_f t b c d =
     (if t < 20 then (b AND c) OR (not32 b AND d)
      else if t < 40 then b XOR c XOR d
      else if t < 60 then (b AND c) OR (b AND d) OR (c AND d)
      else b XOR c XOR d)"

definition sha1_k :: "nat \<Rightarrow> nat" where
  "sha1_k t =
     (if t < 20 then 0x5A827999 else if t < 40 then 0x6ED9EBA1
      else if t < 60 then 0x8F1BBCDC else 0xCA62C1D6)"

text \<open>The message schedule is kept as the window of the last sixteen words.\<close>

fun sha1_next :: "nat list \<Rightarrow> nat" where
  "sha1_next (w0 # w1 # w2 # w3 # w4 # w5 # w6 # w7 # w8 # w9 # w10 # w11 # w12 # w13 # ws) =
     rotl32 1 (w13 XOR w8 XOR w2 XOR w0)"
| "sha1_next ws = 0"

fun sha1_step :: "nat \<Rightarrow> nat \<Rightarrow> nat list \<Rightarrow> nat list" where
  "sha1_step t w [a, b, c, d, e] =
     [add32 (add32 (add32 (add32 (rotl32 5 a) (sha1_f t b c d)) e) (sha1_k t)) w,
      a, rotl32 30 b, c, d]"
| "sha1_step t w s = s"

fun sha1_rounds :: "nat list \<Rightarrow> nat list \<Rightarrow> nat list \<Rightarrow> nat list" where
  "sha1_rounds (t # ts) (w # ws) s =
     sha1_rounds ts (ws @ [sha1_next (w # ws)]) (sha1_step t w s)"
| "sha1_rounds ts ws s = s"

definition sha1_compress :: "nat list \<Rightarrow> byte list \<Rightarrow> nat list" where
  "sha1_compress h blk = map2 add32 h (sha1_rounds [0..<80] (be_words 4 blk) h)"

definition sha1_init :: "nat list" where
  "sha1_init = [0x67452301, 0xEFCDAB89, 0x98BADCFE, 0x10325476, 0xC3D2E1F0]"

definition sha1 :: "byte list \<Rightarrow> byte list" where
  "sha1 m = concat (map (be_bytes 4) (foldl sha1_compress sha1_init (chunks 64 (md_pad 64 8 m))))"

subsection \<open>SHA-256\<close>

definition ch32 :: "nat \<Rightarrow> nat \<Rightarrow> nat \<Rightarrow> nat" where
  "ch32 x y z = (x AND y) XOR (not32 x AND z)"

definition maj :: "nat \<Rightarrow> nat \<Rightarrow> nat \<Rightarrow> nat" where
  "maj x y z = (x AND y) XOR (x AND z) XOR (y AND z)"

definition bsig0_256 :: "nat \<Rightarrow> nat" where
  "bsig0_256 x = rotr32 2 x XOR rotr32 13 x XOR rotr32 22 x"

definition bsig1_256 :: "nat \<Rightarrow> nat" where
  "bsig1_256 x = rotr32 6 x XOR rotr32 11 x XOR rotr32 25 x"

definition ssig0_256 :: "nat \<Rightarrow> nat" where
  "ssig0_256 x = rotr32 7 x XOR rotr32 18 x XOR drop_bit 3 x"

definition ssig1_256 :: "nat \<Rightarrow> nat" where
  "ssig1_256 x = rotr32 17 x XOR rotr32 19 x XOR drop_bit 10 x"

definition K256 :: "nat list" where
  "K256 =
     [0x428A2F98, 0x71374491, 0xB5C0FBCF, 0xE9B5DBA5, 0x3956C25B, 0x59F111F1,
      0x923F82A4, 0xAB1C5ED5, 0xD807AA98, 0x12835B01, 0x243185BE, 0x550C7DC3,
      0x72BE5D74, 0x80DEB1FE, 0x9BDC06A7, 0xC19BF174, 0xE49B69C1, 0xEFBE4786,
      0x0FC19DC6, 0x240CA1CC, 0x2DE92C6F, 0x4A7484AA, 0x5CB0A9DC, 0x76F988DA,
      0x983E5152, 0xA831C66D, 0xB00327C8, 0xBF597FC7, 0xC6E00BF3, 0xD5A79147,
      0x06CA6351, 0x14292967, 0x27B70A85, 0x2E1B2138, 0x4D2C6DFC, 0x53380D13,
      0x650A7354, 0x766A0ABB, 0x81C2C92E, 0x92722C85, 0xA2BFE8A1, 0xA81A664B,
      0xC24B8B70, 0xC76C51A3, 0xD192E819, 0xD6990624, 0xF40E3585, 0x106AA070,
      0x19A4C116, 0x1E376C08, 0x2748774C, 0x34B0BCB5, 0x391C0CB3, 0x4ED8AA4A,
      0x5B9CCA4F, 0x682E6FF3, 0x748F82EE, 0x78A5636F, 0x84C87814, 0x8CC70208,
      0x90BEFFFA, 0xA4506CEB, 0xBEF9A3F7, 0xC67178F2]"

fun sha256_next :: "nat list \<Rightarrow> nat" where
  "sha256_next (w0 # w1 # w2 # w3 # w4 # w5 # w6 # w7 # w8 # w9 # w10 # w11 # w12 # w13 # w14 # ws) =
     add32 (add32 (add32 (ssig1_256 w14) w9) (ssig0_256 w1)) w0"
| "sha256_next ws = 0"

fun sha256_update :: "nat \<Rightarrow> nat \<Rightarrow> nat list \<Rightarrow> nat list" where
  "sha256_update t1 t2 [a, b, c, d, e, f, g, h] =
     [add32 t1 t2, a, b, c, add32 d t1, e, f, g]"
| "sha256_update t1 t2 s = s"

fun sha256_step :: "nat \<Rightarrow> nat \<Rightarrow> nat list \<Rightarrow> nat list" where
  "sha256_step k w [a, b, c, d, e, f, g, h] =
     sha256_update (add32 (add32 (add32 (add32 h (bsig1_256 e)) (ch32 e f g)) k) w)
       (add32 (bsig0_256 a) (maj a b c)) [a, b, c, d, e, f, g, h]"
| "sha256_step k w s = s"

fun sha256_rounds :: "nat list \<Rightarrow> nat list \<Rightarrow> nat list \<Rightarrow> nat list" where
  "sha256_rounds (k # ks) (w # ws) s =
     sha256_rounds ks (ws @ [sha256_next (w # ws)]) (sha256_step k w s)"
| "sha256_rounds ks ws s = s"

definition sha256_compress :: "nat list \<Rightarrow> byte list \<Rightarrow> nat list" where
  "sha256_compress h blk = map2 add32 h (sha256_rounds K256 (be_words 4 blk) h)"

definition sha256_init :: "nat list" where
  "sha256_init =
     [0x6A09E667, 0xBB67AE85, 0x3C6EF372, 0xA54FF53A,
      0x510E527F, 0x9B05688C, 0x1F83D9AB, 0x5BE0CD19]"

definition sha256 :: "byte list \<Rightarrow> byte list" where
  "sha256 m =
     concat (map (be_bytes 4) (foldl sha256_compress sha256_init (chunks 64 (md_pad 64 8 m))))"

subsection \<open>SHA-512\<close>

definition ch64 :: "nat \<Rightarrow> nat \<Rightarrow> nat \<Rightarrow> nat" where
  "ch64 x y z = (x AND y) XOR (not64 x AND z)"

definition bsig0_512 :: "nat \<Rightarrow> nat" where
  "bsig0_512 x = rotr64 28 x XOR rotr64 34 x XOR rotr64 39 x"

definition bsig1_512 :: "nat \<Rightarrow> nat" where
  "bsig1_512 x = rotr64 14 x XOR rotr64 18 x XOR rotr64 41 x"

definition ssig0_512 :: "nat \<Rightarrow> nat" where
  "ssig0_512 x = rotr64 1 x XOR rotr64 8 x XOR drop_bit 7 x"

definition ssig1_512 :: "nat \<Rightarrow> nat" where
  "ssig1_512 x = rotr64 19 x XOR rotr64 61 x XOR drop_bit 6 x"

definition K512 :: "nat list" where
  "K512 =
     [0x428A2F98D728AE22, 0x7137449123EF65CD, 0xB5C0FBCFEC4D3B2F, 0xE9B5DBA58189DBBC,
      0x3956C25BF348B538, 0x59F111F1B605D019, 0x923F82A4AF194F9B, 0xAB1C5ED5DA6D8118,
      0xD807AA98A3030242, 0x12835B0145706FBE, 0x243185BE4EE4B28C, 0x550C7DC3D5FFB4E2,
      0x72BE5D74F27B896F, 0x80DEB1FE3B1696B1, 0x9BDC06A725C71235, 0xC19BF174CF692694,
      0xE49B69C19EF14AD2, 0xEFBE4786384F25E3, 0x0FC19DC68B8CD5B5, 0x240CA1CC77AC9C65,
      0x2DE92C6F592B0275, 0x4A7484AA6EA6E483, 0x5CB0A9DCBD41FBD4, 0x76F988DA831153B5,
      0x983E5152EE66DFAB, 0xA831C66D2DB43210, 0xB00327C898FB213F, 0xBF597FC7BEEF0EE4,
      0xC6E00BF33DA88FC2, 0xD5A79147930AA725, 0x06CA6351E003826F, 0x142929670A0E6E70,
      0x27B70A8546D22FFC, 0x2E1B21385C26C926, 0x4D2C6DFC5AC42AED, 0x53380D139D95B3DF,
      0x650A73548BAF63DE, 0x766A0ABB3C77B2A8, 0x81C2C92E47EDAEE6, 0x92722C851482353B,
      0xA2BFE8A14CF10364, 0xA81A664BBC423001, 0xC24B8B70D0F89791, 0xC76C51A30654BE30,
      0xD192E819D6EF5218, 0xD69906245565A910, 0xF40E35855771202A, 0x106AA07032BBD1B8,
      0x19A4C116B8D2D0C8, 0x1E376C085141AB53, 0x2748774CDF8EEB99, 0x34B0BCB5E19B48A8,
      0x391C0CB3C5C95A63, 0x4ED8AA4AE3418ACB, 0x5B9CCA4F7763E373, 0x682E6FF3D6B2B8A3,
      0x748F82EE5DEFB2FC, 0x78A5636F43172F60, 0x84C87814A1F0AB72, 0x8CC702081A6439EC,
      0x90BEFFFA23631E28, 0xA4506CEBDE82BDE9, 0xBEF9A3F7B2C67915, 0xC67178F2E372532B,
      0xCA273ECEEA26619C, 0xD186B8C721C0C207, 0xEADA7DD6CDE0EB1E, 0xF57D4F7FEE6ED178,
      0x06F067AA72176FBA, 0x0A637DC5A2C898A6, 0x113F9804BEF90DAE, 0x1B710B35131C471B,
      0x28DB77F523047D84, 0x32CAAB7B40C72493, 0x3C9EBE0A15C9BEBC, 0x431D67C49C100D4C,
      0x4CC5D4BECB3E42B6, 0x597F299CFC657E2A, 0x5FCB6FAB3AD6FAEC, 0x6C44198C4A475817]"

fun sha512_next :: "nat list \<Rightarrow> nat" where
  "sha512_next (w0 # w1 # w2 # w3 # w4 # w5 # w6 # w7 # w8 # w9 # w10 # w11 # w12 # w13 # w14 # ws) =
     add64 (add64 (add64 (ssig1_512 w14) w9) (ssig0_512 w1)) w0"
| "sha512_next ws = 0"

fun sha512_update :: "nat \<Rightarrow> nat \<Rightarrow> nat list \<Rightarrow> nat list" where
  "sha512_update t1 t2 [a, b, c, d, e, f, g, h] =
     [add64 t1 t2, a, b, c, add64 d t1, e, f, g]"
| "sha512_update t1 t2 s = s"

fun sha512_step :: "nat \<Rightarrow> nat \<Rightarrow> nat list \<Rightarrow> nat list" where
  "sha512_step k w [a, b, c, d, e, f, g, h] =
     sha512_update (add64 (add64 (add64 (add64 h (bsig1_512 e)) (ch64 e f g)) k) w)
       (add64 (bsig0_512 a) (maj a b c)) [a, b, c, d, e, f, g, h]"
| "sha512_step k w s = s"

fun sha512_rounds :: "nat list \<Rightarrow> nat list \<Rightarrow> nat list \<Rightarrow> nat list" where
  "sha512_rounds (k # ks) (w # ws) s =
     sha512_rounds ks (ws @ [sha512_next (w # ws)]) (sha512_step k w s)"
| "sha512_rounds ks ws s = s"

definition sha512_compress :: "nat list \<Rightarrow> byte list \<Rightarrow> nat list" where
  "sha512_compress h blk = map2 add64 h (sha512_rounds K512 (be_words 8 blk) h)"

definition sha512_init :: "nat list" where
  "sha512_init =
     [0x6A09E667F3BCC908, 0xBB67AE8584CAA73B, 0x3C6EF372FE94F82B, 0xA54FF53A5F1D36F1,
      0x510E527FADE682D1, 0x9B05688C2B3E6C1F, 0x1F83D9ABFB41BD6B, 0x5BE0CD19137E2179]"

definition sha512 :: "byte list \<Rightarrow> byte list" where
  "sha512 m =
     concat (map (be_bytes 8) (foldl sha512_compress sha512_init (chunks 128 (md_pad 128 16 m))))"

subsection \<open>HMAC\<close>

datatype HashAlgorithm = Alg_sha1 | Alg_sha256 | Alg_sha512

fun hash_of :: "HashAlgorithm \<Rightarrow> byte list \<Rightarrow> byte list" where
  "hash_of Alg_sha1 = sha1"
| "hash_of Alg_sha256 = sha256"
| "hash_of Alg_sha512 = sha512"

fun block_size :: "HashAlgorithm \<Rightarrow> nat" where
  "block_size Alg_sha1 = 64"
| "block_size Alg_sha256 = 64"
| "block_size Alg_sha512 = 128"

definition hmac_key :: "HashAlgorithm \<Rightarrow> byte list \<Rightarrow> byte list" where
  "hmac_key alg key =
     (let k = (if length key > block_size alg then hash_of alg key else key)
      in k @ replicate (block_size alg - length k) 0)"

definition hmac :: "HashAlgorithm \<Rightarrow> byte list \<Rightarrow> byte list \<Rightarrow> byte list" where
  "hmac alg key msg =
     hash_of alg (map (\<lambda>b. b XOR 0x5C) (hmac_key alg key)
       @ hash_of alg (map (\<lambda>b. b XOR 0x36) (hmac_key alg key) @ msg))"

subsection \<open>HOTP\<close>

text \<open>The counter as a 64-bit unsigned big-endian number.\<close>

definition counter_bytes :: "int \<Rightarrow> byte list" where
  "counter_bytes c = be_bytes 8 (nat (c mod 2 ^ 64))"

text \<open>Dynamic truncation: the low four bits of the last byte select four bytes, read
  big-endian with the top bit cleared.\<close>

definition dynamic_truncation :: "byte list \<Rightarrow> nat" where
  "dynamic_truncation digest =
     (case rev digest of
        [] \<Rightarrow> 0
      | l # _ \<Rightarrow> be_word (take 4 (drop (l AND 0x0F) digest)) AND 0x7FFFFFFF)"

definition digit_char :: "nat \<Rightarrow> char" where
  "digit_char d = char_of (48 + d)"

function decimal :: "nat \<Rightarrow> string" where
  "decimal n = (if n < 10 then [digit_char n] else decimal (n div 10) @ [digit_char (n mod 10)])"
  by pat_completeness auto
termination
  by (relation "measure id") auto

definition padStart :: "nat \<Rightarrow> char \<Rightarrow> string \<Rightarrow> string" where
  "padStart width c s = replicate (width - length s) c @ s"

definition computeHOTP :: "byte list \<Rightarrow> int \<Rightarrow> HashAlgorithm \<Rightarrow> nat \<Rightarrow> string" where
  "computeHOTP secretBytes counter alg digits =
     padStart digits (CHR ''0'')
       (decimal (dynamic_truncation (hmac alg secretBytes (counter_bytes counter)) mod 10 ^ digits))"

subsection \<open>Base32\<close>

text \<open>
  Modelled from the spec: the secret is a Base32 string of RFC 4648 (alphabet \<open>A-Z2-7\<close>,
  optional \<open>=\<close> padding). Every character stands for five bits; the bits are read in
  groups of eight and an incomplete last group is dropped.
\<close>

definition base32_value :: "char \<Rightarrow> nat option" where
  "base32_value c =
     (if 65 \<le> ord c \<and> ord c \<le> 90 then Some (ord c - 65)
      else if 50 \<le> ord c \<and> ord c \<le> 55 then Some (ord c - 24)
      else None)"

fun base32_bytes :: "nat \<Rightarrow> nat \<Rightarrow> nat list \<Rightarrow> byte list" where
  "base32_bytes acc nbits [] = []"
| "base32_bytes acc nbits (v # vs) =
     (if nbits + 5 \<ge> 8
      then drop_bit (nbits + 5 - 8) (acc * 32 + v)
             # base32_bytes (take_bit (nbits + 5 - 8) (acc * 32 + v)) (nbits + 5 - 8) vs
      else base32_bytes (acc * 32 + v) (nbits + 5) vs)"

definition base32_decode :: "string \<Rightarrow> byte list option" where
  "base32_decode s =
     (let vs = map base32_value (strip_padding s)
      in if None \<in> set vs then None else Some (base32_bytes 0 0 (map the vs)))"

subsection \<open>TOTP\<close>

record totp_options =
  lib_digits :: int
  lib_step :: int
  lib_algorithm :: HashAlgorithm
  lib_window :: int

definition timeStepCounter :: "int \<Rightarrow> int \<Rightarrow> int" where
  "timeStepCounter unixSeconds period = unixSeconds div period"

text \<open>
  Modelled from the spec: \<^verbatim>\<open>totp.generate\<close>. The library reads the clock itself; the
  model takes the time, in Unix seconds, as the argument \<open>now\<close>, and the options that the
  service stores in \<^verbatim>\<open>totp.options\<close> before the call as the argument \<open>opts\<close>.
\<close>

definition totp_generate :: "totp_options \<Rightarrow> int \<Rightarrow> string \<Rightarrow> error + string" where
  "totp_generate opts now secret =
     (case base32_decode secret of
        None \<Rightarrow> Inl InvalidSecretFormat
      | Some key \<Rightarrow>
          if key = [] then Inl InvalidSecretFormat
          else Inr (computeHOTP key (timeStepCounter now (lib_step opts))
                      (lib_algorithm opts) (nat (lib_digits opts))))"



section \<open>The service\<close>

record TOTPOptions =
  opt_algorithm :: "string option"
  opt_digits :: "int option"
  opt_period :: "int option"
  opt_window :: "int option"

text \<open>\<^verbatim>\<open>options?.field\<close> on an optional options object.\<close>

definition opt_field :: "(TOTPOptions \<Rightarrow> 'a option) \<Rightarrow> TOTPOptions option \<Rightarrow> 'a option" where
  "opt_field f options = (case options of None \<Rightarrow> None | Some opts \<Rightarrow> f opts)"

text \<open>\<^verbatim>\<open>x || d\<close> on a number that may be undefined: 0 is falsy.\<close>

definition or_number :: "int option \<Rightarrow> int \<Rightarrow> int" where
  "or_number x d = (case x of None \<Rightarrow> d | Some v \<Rightarrow> if v = 0 then d else v)"

text \<open>\<^verbatim>\<open>x || d\<close> on a string that may be undefined or null: the empty string is falsy.\<close>

definition or_string :: "string option \<Rightarrow> string \<Rightarrow> string" where
  "or_string x d = (case x of None \<Rightarrow> d | Some v \<Rightarrow> if v = [] then d else v)"

definition mapAlgorithm :: "string option \<Rightarrow> HashAlgorithm" where
  "mapAlgorithm algorithm =
     (if algorithm = Some ''SHA1'' then Alg_sha1
      else if algorithm = Some ''SHA256'' then Alg_sha256
      else if algorithm = Some ''SHA512'' then Alg_sha512
      else Alg_sha1)"

definition totpOptions :: "TOTPOptions option \<Rightarrow> totp_options" where
  "totpOptions options =
     \<lparr> lib_digits = or_number (opt_field opt_digits options) 6,
       lib_step = or_number (opt_field opt_period options) 30,
       lib_algorithm = mapAlgorithm (opt_field opt_algorithm options),
       lib_window = or_number (opt_field opt_window options) 1 \<rparr>"

text \<open>
  \<^verbatim>\<open>generateTOTP\<close> and \<^verbatim>\<open>validateTOTP\<close>, with the library call as a parameter: whatever
  \<^verbatim>\<open>totp.generate\<close> or \<^verbatim>\<open>totp.check\<close> returns or throws, the \<^verbatim>\<open>try\<close> block wraps it.
\<close>

definition generateTOTP_with ::
  "(totp_options \<Rightarrow> int \<Rightarrow> string \<Rightarrow> error + string) \<Rightarrow> int \<Rightarrow> string \<Rightarrow> TOTPOptions option
     \<Rightarrow> error + string" where
  "generateTOTP_with generate now secret options =
     (case validateAndCleanSecret secret of
        Inl e \<Rightarrow> Inl (FailedToGenerate e)
      | Inr cleanSecret \<Rightarrow>
          (case generate (totpOptions options) now cleanSecret of
             Inl e \<Rightarrow> Inl (FailedToGenerate e)
           | Inr code \<Rightarrow> Inr code))"

definition validateTOTP_with ::
  "(totp_options \<Rightarrow> int \<Rightarrow> string \<Rightarrow> string \<Rightarrow> error + bool) \<Rightarrow> int \<Rightarrow> string \<Rightarrow> string
     \<Rightarrow> TOTPOptions option \<Rightarrow> bool" where
  "validateTOTP_with check now code secret options =
     (case validateAndCleanSecret secret of
        Inl e \<Rightarrow> False
      | Inr cleanSecret \<Rightarrow>
          (case check (totpOptions options) now code cleanSecret of
             Inl e \<Rightarrow> False
           | Inr ok \<Rightarrow> ok))"

definition generateTOTP :: "int \<Rightarrow> string \<Rightarrow> TOTPOptions option \<Rightarrow> error + string" where
  "generateTOTP = generateTOTP_with totp_generate"


section \<open>Percent-encoding and UTF-8\<close>

text \<open>
  The functions of this section and the next are part of the JavaScript platform
  (ECMAScript and the WHATWG URL Standard), not of the repository; they are modelled from
  those standards on the byte strings of this model.
\<close>

definition is_alnum :: "char \<Rightarrow> bool" where
  "is_alnum c \<longleftrightarrow>
     (48 \<le> ord c \<and> ord c \<le> 57) \<or> (65 \<le> ord c \<and> ord c \<le> 90) \<or> (97 \<le> ord c \<and> ord c \<le> 122)"

definition is_alpha :: "char \<Rightarrow> bool" where
  "is_alpha c \<longleftrightarrow> (65 \<le> ord c \<and> ord c \<le> 90) \<or> (97 \<le> ord c \<and> ord c \<le> 122)"

definition is_digit :: "char \<Rightarrow> bool" where
  "is_digit c \<longleftrightarrow> 48 \<le> ord c \<and> ord c \<le> 57"

definition hex_digit :: "nat \<Rightarrow> char" where
  "hex_digit d = (if d < 10 then chr (48 + d) else chr (55 + d))"

definition hex_value :: "char \<Rightarrow> nat option" where
  "hex_value c =
     (if 48 \<le> ord c \<and> ord c \<le> 57 then Some (ord c - 48)
      else if 65 \<le> ord c \<and> ord c \<le> 70 then Some (ord c - 55)
      else if 97 \<le> ord c \<and> ord c \<le> 102 then Some (ord c - 87)
      else None)"

definition percent_byte :: "char \<Rightarrow> string" where
  "percent_byte c = [CHR ''%'', hex_digit (ord c div 16), hex_digit (ord c mod 16)]"

text \<open>The byte written by the two hexadecimal digits that a string starts with.\<close>

definition escape_byte :: "string \<Rightarrow> nat option" where
  "escape_byte s =
     (case s of
        h1 # h2 # _ \<Rightarrow>
          (case hex_value h1 of
             None \<Rightarrow> None
           | Some a \<Rightarrow> (case hex_value h2 of None \<Rightarrow> None | Some b \<Rightarrow> Some (16 * a + b)))
      | _ \<Rightarrow> None)"

text \<open>\<^verbatim>\<open>encodeURIComponent\<close>: every byte but those of \<open>A-Z a-z 0-9 - _ . ! ~ * ' ( )\<close>
  is escaped.\<close>

definition uri_unreserved :: "char \<Rightarrow> bool" where
  "uri_unreserved c \<longleftrightarrow> is_alnum c \<or> c \<in> set ''-_.!~*'' \<or> ord c \<in> {39, 40, 41}"

definition encodeURIComponent :: "string \<Rightarrow> string" where
  "encodeURIComponent s = concat (map (\<lambda>c. if uri_unreserved c then [c] else percent_byte c) s)"

text \<open>
  UTF-8: for a lead byte, the number of continuation bytes and the range of the first
  of them (the ranges exclude overlong forms, surrogates and values above U+10FFFF).
\<close>

definition utf8_follow :: "nat \<Rightarrow> (nat \<times> nat \<times> nat) option" where
  "utf8_follow b =
     (if 0xC2 \<le> b \<and> b \<le> 0xDF then Some (1, 0x80, 0xBF)
      else if b = 0xE0 then Some (2, 0xA0, 0xBF)
      else if b = 0xED then Some (2, 0x80, 0x9F)
      else if 0xE1 \<le> b \<and> b \<le> 0xEF then Some (2, 0x80, 0xBF)
      else if b = 0xF0 then Some (3, 0x90, 0xBF)
      else if 0xF1 \<le> b \<and> b \<le> 0xF3 then Some (3, 0x80, 0xBF)
      else if b = 0xF4 then Some (3, 0x80, 0x8F)
      else None)"

definition is_cont :: "nat \<Rightarrow> bool" where
  "is_cont b \<longleftrightarrow> 0x80 \<le> b \<and> b \<le> 0xBF"

text \<open>How many of the bytes \<open>ts\<close> continue a character whose first continuation byte
  lies in \<open>lo..hi\<close>, up to \<open>n\<close> of them.\<close>

fun cont_prefix :: "nat \<Rightarrow> nat \<Rightarrow> nat \<Rightarrow> nat list \<Rightarrow> nat" where
  "cont_prefix 0 lo hi ts = 0"
| "cont_prefix (Suc n) lo hi [] = 0"
| "cont_prefix (Suc n) lo hi (t # ts) =
     (if lo \<le> t \<and> t \<le> hi then Suc (cont_prefix n 0x80 0xBF ts) else 0)"

text \<open>The length in bytes of the well-formed character that a string starts with, and 0
  when it starts with none.\<close>

definition utf8_len :: "string \<Rightarrow> nat" where
  "utf8_len s =
     (case s of
        [] \<Rightarrow> 0
      | c # cs \<Rightarrow>
          if ord c < 0x80 then 1
          else (case utf8_follow (ord c) of
                  None \<Rightarrow> 0
                | Some (n, lo, hi) \<Rightarrow>
                    if cont_prefix n lo hi (map ord cs) = n then Suc n else 0))"

fun wf_utf8 :: "string \<Rightarrow> bool" where
  "wf_utf8 [] = True"
| "wf_utf8 (c # cs) =
     (utf8_len (c # cs) \<noteq> 0 \<and> wf_utf8 (drop (utf8_len (c # cs) - 1) cs))"

text \<open>
  The UTF-8 decoder of the Encoding Standard, which puts U+FFFD (bytes EF BF BD) in the
  place of every ill-formed part: a byte that starts no character, or a lead byte with
  the continuation bytes that were accepted before the character broke off.
\<close>

fun utf8_decode_lossy :: "string \<Rightarrow> string" where
  "utf8_decode_lossy [] = []"
| "utf8_decode_lossy (c # cs) =
     (if utf8_len (c # cs) \<noteq> 0
      then c # take (utf8_len (c # cs) - 1) cs
             @ utf8_decode_lossy (drop (utf8_len (c # cs) - 1) cs)
      else map chr [0xEF, 0xBF, 0xBD]
             @ utf8_decode_lossy
                 (drop (case utf8_follow (ord c) of
                          None \<Rightarrow> 0
                        | Some (n, lo, hi) \<Rightarrow> cont_prefix n lo hi (map ord cs)) cs))"

text \<open>\<open>n\<close> escapes \<open>%XX\<close> at the start of a string.\<close>

fun escaped_bytes :: "nat \<Rightarrow> string \<Rightarrow> nat list option" where
  "escaped_bytes 0 s = Some []"
| "escaped_bytes (Suc n) [] = None"
| "escaped_bytes (Suc n) (c # cs) =
     (if c \<noteq> CHR ''%'' then None
      else (case escape_byte cs of
              None \<Rightarrow> None
            | Some b \<Rightarrow> map_option ((#) b) (escaped_bytes n (drop 2 cs))))"

text \<open>
  \<^verbatim>\<open>decodeURIComponent\<close>; \<open>None\<close> is the URIError. An escape of a byte below 0x80 is
  that character; any other escape has to start a run of escapes that is the UTF-8
  form of one character.
\<close>

fun decodeURIComponent :: "string \<Rightarrow> string option" where
  "decodeURIComponent [] = Some []"
| "decodeURIComponent (c # cs) =
     (if c \<noteq> CHR ''%'' then map_option ((#) c) (decodeURIComponent cs)
      else (case escape_byte cs of
              None \<Rightarrow> None
            | Some b \<Rightarrow>
                if b < 0x80 then map_option ((#) (chr b)) (decodeURIComponent (drop 2 cs))
                else (case utf8_follow b of
                        None \<Rightarrow> None
                      | Some (n, lo, hi) \<Rightarrow>
                          (case escaped_bytes n (drop 2 cs) of
                             None \<Rightarrow> None
                           | Some ts \<Rightarrow>
                               if cont_prefix n lo hi ts = n
                               then map_option ((@) (map chr (b # ts)))
                                      (decodeURIComponent (drop (2 + 3 * n) cs))
                               else None))))"

section \<open>URLSearchParams and URL\<close>

text \<open>\<^verbatim>\<open>s.split(c)\<close>\<close>

fun split_on :: "char \<Rightarrow> string \<Rightarrow> string list" where
  "split_on c [] = [[]]"
| "split_on c (x # xs) =
     (if x = c then [] # split_on c xs
      else (case split_on c xs of [] \<Rightarrow> [[x]] | y # ys \<Rightarrow> (x # y) # ys))"

fun join_with :: "string \<Rightarrow> string list \<Rightarrow> string" where
  "join_with sep [] = []"
| "join_with sep [x] = x"
| "join_with sep (x # y # ys) = x @ sep @ join_with sep (y # ys)"

text \<open>The serializer of \<^verbatim>\<open>application/x-www-form-urlencoded\<close>: a space becomes \<open>+\<close>,
  the bytes of \<open>A-Z a-z 0-9 * - . _\<close> stay, every other byte is escaped.\<close>

definition form_encode :: "string \<Rightarrow> string" where
  "form_encode s =
     concat (map (\<lambda>c. if c = CHR '' '' then ''+''
                       else if is_alnum c \<or> c \<in> set ''*-._'' then [c]
                       else percent_byte c) s)"

definition URLSearchParams_toString :: "(string \<times> string) list \<Rightarrow> string" where
  "URLSearchParams_toString params =
     join_with ''&'' (map (\<lambda>(name, value). form_encode name @ ''='' @ form_encode value) params)"

fun percent_decode :: "string \<Rightarrow> string" where
  "percent_decode [] = []"
| "percent_decode (c # cs) =
     (if c = CHR ''%'' then
        (case escape_byte cs of
           None \<Rightarrow> c # percent_decode cs
         | Some b \<Rightarrow> chr b # percent_decode (drop 2 cs))
      else c # percent_decode cs)"

definition form_decode :: "string \<Rightarrow> string" where
  "form_decode s =
     utf8_decode_lossy (percent_decode (map (\<lambda>c. if c = CHR ''+'' then CHR '' '' else c) s))"

text \<open>The parser of \<^verbatim>\<open>application/x-www-form-urlencoded\<close>, which gives the list behind
  \<^verbatim>\<open>url.searchParams\<close>.\<close>

definition form_parse :: "string \<Rightarrow> (string \<times> string) list" where
  "form_parse query =
     map (\<lambda>s. (form_decode (takeWhile (\<lambda>c. c \<noteq> CHR ''='') s),
                form_decode (drop 1 (dropWhile (\<lambda>c. c \<noteq> CHR ''='') s))))
       (filter (\<lambda>s. s \<noteq> []) (split_on CHR ''&'' query))"

text \<open>\<^verbatim>\<open>params.get(name)\<close>: the first value under the name, or null.\<close>

definition params_get :: "(string \<times> string) list \<Rightarrow> string \<Rightarrow> string option" where
  "params_get params name = map_of params name"

record URL =
  protocol :: string
  hostname :: string
  pathname :: string
  searchParams :: "(string \<times> string) list"

definition lower_ascii :: "char \<Rightarrow> char" where
  "lower_ascii c = (if 65 \<le> ord c \<and> ord c \<le> 90 then chr (ord c + 32) else c)"

text \<open>\<^verbatim>\<open>s.toLowerCase()\<close>, for the ASCII letters. It is applied to host names, which the
  URL parser returns in ASCII.\<close>

definition toLowerCase :: "string \<Rightarrow> string" where
  "toLowerCase s = map lower_ascii s"

text \<open>The percent-encode sets of the URL Standard that a URL without special scheme
  needs: C0 control (host and opaque path), query and path.\<close>

definition c0_control_set :: "char \<Rightarrow> bool" where
  "c0_control_set c \<longleftrightarrow> ord c < 0x20 \<or> ord c > 0x7E"

definition query_set :: "char \<Rightarrow> bool" where
  "query_set c \<longleftrightarrow> c0_control_set c \<or> ord c \<in> {0x20, 0x22, 0x23, 0x3C, 0x3E}"

definition path_set :: "char \<Rightarrow> bool" where
  "path_set c \<longleftrightarrow> query_set c \<or> ord c \<in> {0x3F, 0x5E, 0x60, 0x7B, 0x7D}"

definition percent_encode :: "(char \<Rightarrow> bool) \<Rightarrow> string \<Rightarrow> string" where
  "percent_encode in_set s = concat (map (\<lambda>c. if in_set c then percent_byte c else [c]) s)"

definition forbidden_host :: "char \<Rightarrow> bool" where
  "forbidden_host c \<longleftrightarrow>
     ord c \<in> {0x00, 0x09, 0x0A, 0x0D, 0x20, 0x23, 0x2F, 0x3A, 0x3C, 0x3E, 0x3F, 0x40,
               0x5B, 0x5C, 0x5D, 0x5E, 0x7C}"

definition single_dot :: "string \<Rightarrow> bool" where
  "single_dot seg \<longleftrightarrow> toLowerCase seg \<in> {''.'', ''%2e''}"

definition double_dot :: "string \<Rightarrow> bool" where
  "double_dot seg \<longleftrightarrow> toLowerCase seg \<in> {''..'', ''.%2e'', ''%2e.'', ''%2e%2e''}"

text \<open>The path state: the segments between slashes, with \<open>.\<close> skipped and \<open>..\<close>
  removing the segment before it.\<close>

fun path_segments :: "string list \<Rightarrow> string list \<Rightarrow> string list" where
  "path_segments path [] = path"
| "path_segments path (seg # segs) =
     (if double_dot seg then path_segments (butlast path @ (if segs = [] then [[]] else [])) segs
      else if single_dot seg then path_segments (path @ (if segs = [] then [[]] else [])) segs
      else path_segments (path @ [percent_encode path_set seg]) segs)"

definition parse_path :: "string \<Rightarrow> string" where
  "parse_path s =
     (if s = [] then []
      else concat (map ((#) CHR ''/'') (path_segments [] (split_on CHR ''/'' (drop 1 s)))))"

definition special_scheme :: "string \<Rightarrow> bool" where
  "special_scheme s \<longleftrightarrow> s \<in> {''ftp'', ''file'', ''http'', ''https'', ''ws'', ''wss''}"

text \<open>The host state for a URL without special scheme: user information up to the last
  \<open>@\<close>, a port of digits after the colon, an opaque host without forbidden
  characters. \<open>None\<close> is failure. A host in square brackets is an IPv6 address, whose
  syntax is not modelled: the text is returned as it stands.\<close>

definition parse_authority :: "string \<Rightarrow> string option" where
  "parse_authority auth =
     (let has_at = CHR ''@'' \<in> set auth;
          hostport = (if has_at then rev (takeWhile (\<lambda>c. c \<noteq> CHR ''@'') (rev auth)) else auth);
          bracket = (take 1 hostport = ''['');
          host = (if bracket then takeWhile (\<lambda>c. c \<noteq> CHR '']'') hostport @ take 1 (dropWhile (\<lambda>c. c \<noteq> CHR '']'') hostport)
                  else takeWhile (\<lambda>c. c \<noteq> CHR '':'') hostport);
          after = drop (length host) hostport;
          port = drop 1 after
      in if has_at \<and> hostport = [] then None
         else if after \<noteq> [] \<and> (take 1 after \<noteq> '':'' \<or> host = []) then None
         else if \<not> list_all is_digit port \<or> (port \<noteq> [] \<and> 65535 < foldl (\<lambda>n c. 10 * n + (ord c - 48)) 0 port) then None
         else if bracket then (if take 1 (rev host) = '']'' then Some host else None)
         else if list_ex forbidden_host host then None
         else Some (percent_encode c0_control_set host))"

definition strip_c0_space :: "string \<Rightarrow> string" where
  "strip_c0_space s =
     rev (dropWhile (\<lambda>c. ord c \<le> 0x20) (rev (dropWhile (\<lambda>c. ord c \<le> 0x20) s)))"

text \<open>
  \<^verbatim>\<open>new URL(url)\<close>, without base URL; \<open>None\<close> is the TypeError. Of a URL with a special
  scheme (\<open>http\<close>, \<open>https\<close>, \<open>ws\<close>, \<open>wss\<close>, \<open>ftp\<close>, \<open>file\<close>) the model gives the
  protocol only, the one field that the service reads before it rejects the URL; the host
  rules that can make the constructor throw for these schemes are not modelled.
\<close>

definition new_URL :: "string \<Rightarrow> URL option" where
  "new_URL input =
     (let s = filter (\<lambda>c. ord c \<notin> {0x09, 0x0A, 0x0D}) (strip_c0_space input);
          scheme = toLowerCase (takeWhile (\<lambda>c. is_alnum c \<or> c \<in> set ''+-.'') s);
          rest = drop (Suc (length scheme)) s;
          before_fragment = takeWhile (\<lambda>c. c \<noteq> CHR ''#'') rest;
          hier = takeWhile (\<lambda>c. c \<noteq> CHR ''?'') before_fragment;
          query = percent_encode query_set (drop (Suc (length hier)) before_fragment);
          params = form_parse query
      in if \<not> list_ex is_alpha (take 1 s) \<or> take 1 (drop (length scheme) s) \<noteq> '':'' then None
         else if special_scheme scheme then
           Some \<lparr> protocol = scheme @ '':'', hostname = [], pathname = [], searchParams = [] \<rparr>
         else if take 2 hier = ''//'' then
           (let auth = takeWhile (\<lambda>c. c \<noteq> CHR ''/'') (drop 2 hier)
            in case parse_authority auth of
                 None \<Rightarrow> None
               | Some host \<Rightarrow>
                   Some \<lparr> protocol = scheme @ '':'', hostname = host,
                          pathname = parse_path (drop (2 + length auth) hier),
                          searchParams = params \<rparr>)
         else if take 1 hier = ''/'' then
           Some \<lparr> protocol = scheme @ '':'', hostname = [], pathname = parse_path hier,
                  searchParams = params \<rparr>
         else
           Some \<lparr> protocol = scheme @ '':'', hostname = [],
                  pathname = percent_encode c0_control_set hier, searchParams = params \<rparr>)"

section \<open>Provisioning URIs\<close>

text \<open>A JavaScript number that came out of \<^verbatim>\<open>parseInt\<close>: NaN or an integer (exact in
  the model; the platform rounds beyond \<open>2^53\<close>).\<close>

datatype jsnum = NaN | Num int

function skip_whitespace :: "string \<Rightarrow> string" where
  "skip_whitespace s = (if ws_prefix s = 0 then s else skip_whitespace (drop (ws_prefix s) s))"
  by pat_completeness auto
termination
  apply (relation "measure length")
   apply simp
  apply (case_tac s)
   apply simp
  apply (simp del: ws_prefix.simps)
  done

definition digits_value :: "string \<Rightarrow> nat" where
  "digits_value ds = foldl (\<lambda>n c. 10 * n + (ord c - 48)) 0 ds"

text \<open>\<^verbatim>\<open>parseInt(s, 10)\<close>\<close>

definition parseInt :: "string \<Rightarrow> jsnum" where
  "parseInt s =
     (let t = skip_whitespace s;
          u = (if take 1 t = ''-'' \<or> take 1 t = ''+'' then drop 1 t else t);
          ds = takeWhile is_digit u
      in if ds = [] then NaN
         else if take 1 t = ''-'' then Num (- int (digits_value ds))
         else Num (int (digits_value ds)))"

text \<open>\<^verbatim>\<open>n.toString()\<close> for an integer.\<close>

definition number_toString :: "int \<Rightarrow> string" where
  "number_toString n = (if n < 0 then ''-'' @ decimal (nat (- n)) else decimal (nat n))"

record QRCodeResult =
  qr_type :: string
  qr_label :: string
  qr_secret :: string
  qr_issuer :: "string option"
  qr_algorithm :: string
  qr_digits :: jsnum
  qr_period :: jsnum
  qr_counter :: "jsnum option"

text \<open>
  The label handling of \<^verbatim>\<open>parseOTPAuthURL\<close>: from the decoded path label and the
  \<open>issuer\<close> parameter (empty when absent) to the local variables \<^verbatim>\<open>issuer\<close> and
  \<^verbatim>\<open>accountName\<close>. \<^verbatim>\<open>pathLabel.split(':', 2)\<close> is the first two of all the pieces
  between colons.
\<close>

definition label_parts :: "string \<Rightarrow> string \<Rightarrow> string \<times> string" where
  "label_parts pathLabel issuer =
     (let parts = take 2 (split_on CHR '':'' pathLabel) in
      if CHR '':'' \<in> set pathLabel \<and> issuer = [] then (parts ! 0, parts ! 1)
      else if CHR '':'' \<in> set pathLabel \<and> issuer \<noteq> [] then
        (issuer, if parts ! 1 \<noteq> [] then parts ! 1 else parts ! 0)
      else (issuer, pathLabel))"

text \<open>The descriptor that \<^verbatim>\<open>parseOTPAuthURL\<close> builds and then normalises, once the
  required fields have passed their checks.\<close>

definition qr_result :: "URL \<Rightarrow> string \<Rightarrow> string \<Rightarrow> QRCodeResult" where
  "qr_result urlObj secret pathLabel =
     (let params = searchParams urlObj;
          type = toLowerCase (hostname urlObj);
          issuer = fst (label_parts pathLabel (or_string (params_get params ''issuer'') []));
          algorithm = or_string (map_option toUpperCase (params_get params ''algorithm'')) ''SHA1'';
          digits = parseInt (or_string (params_get params ''digits'') ''6'');
          period = parseInt (or_string (params_get params ''period'') ''30'');
          counter = (if type = ''hotp'' \<and> or_string (params_get params ''counter'') [] \<noteq> []
                     then Some (parseInt (or_string (params_get params ''counter'') []))
                     else None)
      in \<lparr> qr_type = type, qr_label = pathLabel, qr_secret = secret,
            qr_issuer = (if issuer = [] then None else Some issuer),
            qr_algorithm =
              (if algorithm \<in> {''SHA1'', ''SHA256'', ''SHA512''} then algorithm else ''SHA1''),
            qr_digits = (if digits \<in> {Num 6, Num 7, Num 8} then digits else Num 6),
            qr_period =
              (case period of
                 NaN \<Rightarrow> NaN
               | Num p \<Rightarrow> if p < 1 \<or> p > 300 then Num 30 else Num p),
            qr_counter = counter \<rparr>)"

definition parseOTPAuthURL :: "string \<Rightarrow> error + QRCodeResult" where
  "parseOTPAuthURL url =
     (case new_URL url of
        None \<Rightarrow> Inl (InvalidOTPAuthURL InvalidURL)
      | Some urlObj \<Rightarrow>
          if protocol urlObj \<noteq> ''otpauth:'' then Inl (InvalidOTPAuthURL InvalidProtocol)
          else if toLowerCase (hostname urlObj) \<noteq> ''totp'' \<and> toLowerCase (hostname urlObj) \<noteq> ''hotp''
          then Inl (InvalidOTPAuthURL UnsupportedType)
          else
            (case params_get (searchParams urlObj) ''secret'' of
               None \<Rightarrow> Inl (InvalidOTPAuthURL SecretRequired)
             | Some secret \<Rightarrow>
                 if secret = [] then Inl (InvalidOTPAuthURL SecretRequired)
                 else if \<not> validateSecret secret then Inl (InvalidOTPAuthURL InvalidSecretFormat)
                 else
                   (case decodeURIComponent (drop 1 (pathname urlObj)) of
                      None \<Rightarrow> Inl (InvalidOTPAuthURL URIMalformed)
                    | Some pathLabel \<Rightarrow> Inr (qr_result urlObj secret pathLabel))))"

definition createOTPAuthURL ::
  "string \<Rightarrow> string \<Rightarrow> string \<Rightarrow> TOTPOptions option \<Rightarrow> error + string" where
  "createOTPAuthURL issuer accountName secret options =
     (case validateAndCleanSecret secret of
        Inl e \<Rightarrow> Inl e
      | Inr cleanSecret \<Rightarrow>
          (let label = (if issuer \<noteq> [] then issuer @ '':'' @ accountName else accountName);
               params =
                 [(''secret'', cleanSecret),
                  (''issuer'', issuer),
                  (''algorithm'', or_string (opt_field opt_algorithm options) ''SHA1''),
                  (''digits'', number_toString (or_number (opt_field opt_digits options) 6)),
                  (''period'', number_toString (or_number (opt_field opt_period options) 30))]
           in Inr (''otpauth://totp/'' @ encodeURIComponent label @ ''?''
                    @ URLSearchParams_toString params)))"

section \<open>Evaluation rules\<close>

text \<open>
  The hash functions are evaluated on concrete blocks by rewriting with the equations
  collected here: the definitions, and binary arithmetic on numerals.
\<close>

lemma upt_eval:
  "[0..<numeral n] = 0 # [1..<numeral n]"
  "[1..<numeral n] = (if 1 < (numeral n :: nat) then 1 # [2..<numeral n] else [])"
  "[numeral m..<numeral n] =
     (if (numeral m :: nat) < numeral n then numeral m # [numeral (m + Num.One)..<numeral n] else [])"
proof -
  show "[0..<numeral n] = 0 # [1..<numeral n]"
    by (simp add: upt_conv_Cons)
  show "[1..<numeral n] = (if 1 < (numeral n :: nat) then 1 # [2..<numeral n] else [])"
    using upt_rec[of 1 "numeral n"] unfolding Suc_1 .
  show "[numeral m..<numeral n] =
     (if (numeral m :: nat) < numeral n then numeral m # [numeral (m + Num.One)..<numeral n] else [])"
    using upt_rec[of "numeral m" "numeral n"] unfolding Suc_numeral .
qed

lemma be_bytes_numeral:
  "be_bytes (numeral n) x = (drop_bit (8 * pred_numeral n) x AND 0xFF) # be_bytes (pred_numeral n) x"
  by (simp add: numeral_eq_Suc)

lemma be_bytes_one: "be_bytes 1 x = [x AND 0xFF]"
  by simp

lemma take_numeral_pred: "take (numeral v) (x # xs) = x # take (pred_numeral v) xs"
  by (simp add: numeral_eq_Suc)

lemma drop_numeral_pred: "drop (numeral v) (x # xs) = drop (pred_numeral v) xs"
  by (simp add: numeral_eq_Suc)

lemma take_one_Cons: "take 1 (x # xs) = [x]"
  by simp

lemma drop_one_Cons: "drop 1 (x # xs) = xs"
  by simp

lemma shift_by_one:
  "drop_bit 1 (numeral (num.Bit0 k) :: nat) = numeral k"
  "drop_bit 1 (numeral (num.Bit1 k) :: nat) = numeral k"
  "drop_bit 1 (1 :: nat) = 0"
  "drop_bit (numeral l) (1 :: nat) = 0"
  "push_bit 1 (1 :: nat) = 2"
  by simp_all

lemma push_by_one: "push_bit 1 (numeral k :: nat) = numeral (num.Bit0 k)"
  using push_bit_Suc_numeral[of 0 k, where ?'a = nat] by simp

lemma push_one: "push_bit (numeral l) (1 :: nat) = push_bit (pred_numeral l) 2"
  by (simp add: push_bit_eq_mult numeral_eq_Suc[of l])

lemma numeral_minus_one_nat: "numeral v - (1::nat) = pred_numeral v"
  by (simp add: numeral_eq_Suc)

lemma rounds_Nil:
  "sha1_rounds [] ws s = s" "sha256_rounds [] ws s = s" "sha512_rounds [] ws s = s"
  by simp_all

lemma replicate_numeral_pred: "replicate (numeral n) x = x # replicate (pred_numeral n) x"
  by (simp add: numeral_eq_Suc)

lemma replicate_one: "replicate 1 x = [x]"
  by simp

lemma nat_small: "nat 1 = 1" "nat 0 = 0"
  by simp_all

named_theorems num_eval

lemmas [num_eval] =
  if_True if_False simp_thms list.simps list.sel append.simps zip_Cons_Cons zip_Nil
  list.map prod.case list.size(3) length_Cons concat.simps
  take_numeral_pred drop_numeral_pred take_one_Cons drop_one_Cons take_0 drop_0 take_Nil drop_Nil
  replicate_numeral_pred replicate_one replicate.simps(1) nat_small
  be_bytes.simps(1) be_bytes_numeral be_bytes_one
  pred_numeral_simps numeral_minus_one_nat
  numeral_plus_numeral add_num_simps one_plus_numeral numeral_plus_one one_add_one
  numeral_times_numeral mult_num_simps
  numeral_xor_num xor_num.simps numeral_and_num and_num.simps numeral_or_num or_num.simps
  option.case option.map
  numeral_less_iff less_num_simps le_num_simps numeral_eq_iff num.simps
  zero_less_numeral one_less_numeral_iff not_numeral_less_zero not_numeral_less_one
  less_numeral_extra zero_neq_numeral numeral_neq_zero
  diff_nat_numeral nat_numeral diff_numeral_simps sub_num_simps dbl_simps dbl_inc_simps
  dbl_dec_simps BitM.simps
  drop_bit_numeral_bit0 drop_bit_numeral_bit1 drop_bit_of_0 drop_bit_0
  push_bit_numeral push_bit_of_0 push_bit_0_id shift_by_one push_by_one push_one
  id_apply numeral_One add_0 add_0_right mult_0 mult_0_right mult_1 mult_1_right
  mult_Suc_right
  and_zero_eq zero_and_eq or.left_neutral or.right_neutral xor.left_neutral xor.right_neutral
  and_numerals(1,2,5,8) or_numerals(1,2,5,8) xor_numerals(1,2,5,8) and.idem or.idem xor_self_eq

named_theorems sha_eval

lemmas [sha_eval] =
  num_eval
  add32_def rotl32_def rotr32_def not32_def add64_def rotr64_def not64_def
  be_word.simps be_words.simps
  sha1_f_def sha1_k_def sha1_next.simps(1) sha1_step.simps(1) sha1_rounds.simps(1)
  sha1_compress_def sha1_init_def upt_eval rounds_Nil
  ch32_def maj_def bsig0_256_def bsig1_256_def ssig0_256_def ssig1_256_def K256_def
  sha256_next.simps(1) sha256_update.simps(1) sha256_step.simps(1) sha256_rounds.simps(1)
  sha256_compress_def sha256_init_def
  ch64_def bsig0_512_def bsig1_512_def ssig0_512_def ssig1_512_def K512_def
  sha512_next.simps(1) sha512_update.simps(1) sha512_step.simps(1) sha512_rounds.simps(1)
  sha512_compress_def sha512_init_def

text \<open>The last step of a code: truncation and decimal formatting.\<close>

lemmas hotp_fmt =
  dynamic_truncation_def padStart_def decimal.simps digit_char_def char_of_def bit_0

section \<open>Secret validation: properties\<close>

lemma takeWhile_dropWhile_split:
  assumes "list_all P body" and "list_all (\<lambda>c. \<not> P c) pad"
  shows "takeWhile P (body @ pad) = body \<and> dropWhile P (body @ pad) = pad"
proof -
  have "takeWhile P pad = [] \<and> dropWhile P pad = pad"
    using assms(2) by (cases pad) simp_all
  then show ?thesis
    using assms(1) by (induction body) simp_all
qed

lemma test_base32_iff:
  "test_base32 s \<longleftrightarrow>
     (\<exists>body pad. s = body @ pad \<and> body \<noteq> [] \<and> list_all is_base32_char body
        \<and> list_all (\<lambda>c. c = CHR ''='') pad)"
proof
  assume t: "test_base32 s"
  have 2: "takeWhile is_base32_char s \<noteq> []"
    using t by (simp add: test_base32_def)
  have 3: "list_all is_base32_char (takeWhile is_base32_char s)"
    by (induction s) simp_all
  have 4: "list_all (\<lambda>c. c = CHR ''='') (dropWhile is_base32_char s)"
    using t by (simp add: test_base32_def)
  show "\<exists>body pad. s = body @ pad \<and> body \<noteq> [] \<and> list_all is_base32_char body
        \<and> list_all (\<lambda>c. c = CHR ''='') pad"
    by (rule exI[of _ "takeWhile is_base32_char s"], rule exI[of _ "dropWhile is_base32_char s"])
      (simp add: 2 3 4)
next
  assume "\<exists>body pad. s = body @ pad \<and> body \<noteq> [] \<and> list_all is_base32_char body
        \<and> list_all (\<lambda>c. c = CHR ''='') pad"
  then obtain body pad where s: "s = body @ pad" and ne: "body \<noteq> []"
    and b: "list_all is_base32_char body" and p: "list_all (\<lambda>c. c = CHR ''='') pad"
    by blast
  have eq: "\<not> is_base32_char CHR ''=''"
    by (simp add: is_base32_char_def ord_def)
  have p': "list_all (\<lambda>c. \<not> is_base32_char c) pad"
    using p by (induction pad) (simp_all add: eq)
  show "test_base32 s"
    using takeWhile_dropWhile_split[OF b p'] ne p by (simp add: test_base32_def s)
qed

lemma validate_fails_iff:
  "(\<exists>e. validateAndCleanSecret secret = Inl e) \<longleftrightarrow>
      toUpperCase (remove_whitespace secret) = []
      \<or> \<not> test_base32 (toUpperCase (remove_whitespace secret))
      \<or> length (strip_padding (toUpperCase (remove_whitespace secret))) < 8"
proof (cases "secret = []")
  case True
  then show ?thesis
    by (simp add: validateAndCleanSecret_def)
next
  case False
  have "\<not> test_base32 []"
    by (simp add: test_base32_def)
  then have "toUpperCase (remove_whitespace secret) = [] \<Longrightarrow>
      \<not> test_base32 (toUpperCase (remove_whitespace secret))"
    by simp
  with False show ?thesis
    by (auto simp: validateAndCleanSecret_def Let_def)
qed

lemma validate_Inr:
  "validateAndCleanSecret secret = Inr cleaned \<Longrightarrow>
     cleaned = toUpperCase (remove_whitespace secret) \<and> test_base32 cleaned
       \<and> 8 \<le> length (strip_padding cleaned)"
  by (simp add: validateAndCleanSecret_def Let_def split: if_splits)

lemmas secret_eval =
  validateAndCleanSecret_def test_base32_def is_base32_char_def ord_def upper_ascii_def chr_def
  strip_padding_def

text \<open>
  C2. After white space is removed and letters are made capitals, validation fails
  exactly when the cleaned string is empty, does not have the form \<open>[A-Z2-7]+=*\<close>, or
  has fewer than 8 characters without its trailing \<open>=\<close>. The three examples of the
  specification behave as it says.
\<close>

theorem validateAndCleanSecret_rejects:
  "((\<exists>e. validateAndCleanSecret secret = Inl e) \<longleftrightarrow>
      toUpperCase (remove_whitespace secret) = []
      \<or> \<not> (\<exists>body pad. toUpperCase (remove_whitespace secret) = body @ pad \<and> body \<noteq> []
               \<and> list_all is_base32_char body \<and> list_all (\<lambda>c. c = CHR ''='') pad)
      \<or> length (strip_padding (toUpperCase (remove_whitespace secret))) < 8)
   \<and> validateAndCleanSecret ''not valid base32!!!'' = Inl SecretNotBase32
   \<and> validateAndCleanSecret ''AAAA'' = Inl SecretTooShort
   \<and> validateAndCleanSecret ''JBSWY3DPEHPK3PXP'' = Inr ''JBSWY3DPEHPK3PXP''"
proof (intro conjI)
  show "(\<exists>e. validateAndCleanSecret secret = Inl e) \<longleftrightarrow>
      toUpperCase (remove_whitespace secret) = []
      \<or> \<not> (\<exists>body pad. toUpperCase (remove_whitespace secret) = body @ pad \<and> body \<noteq> []
               \<and> list_all is_base32_char body \<and> list_all (\<lambda>c. c = CHR ''='') pad)
      \<or> length (strip_padding (toUpperCase (remove_whitespace secret))) < 8"
    unfolding test_base32_iff[symmetric] by (rule validate_fails_iff)
  show "validateAndCleanSecret ''not valid base32!!!'' = Inl SecretNotBase32"
    by (simp add: secret_eval)
  show "validateAndCleanSecret ''AAAA'' = Inl SecretTooShort"
    by (simp add: secret_eval)
  show "validateAndCleanSecret ''JBSWY3DPEHPK3PXP'' = Inr ''JBSWY3DPEHPK3PXP''"
    by (simp add: secret_eval)
qed

theorem validateAndCleanSecret_rejects_witness:
  "length (strip_padding (toUpperCase (remove_whitespace ''JBSWY3D==''))) < 8
   \<and> (\<exists>e. validateAndCleanSecret ''JBSWY3D=='' = Inl e)"
  using validateAndCleanSecret_rejects[of "''JBSWY3D==''"]
  by (simp add: ord_def upper_ascii_def chr_def strip_padding_def)


section \<open>Validation never raises\<close>

text \<open>
  C10. Whatever the library call does, return a value or throw, and whatever the
  secret and the options are, \<^verbatim>\<open>validateTOTP\<close> returns a boolean: it is true exactly when
  the secret passes validation and the library call returns true, so every error on the
  way is turned into false.
\<close>

theorem validateTOTP_total:
  "validateTOTP_with check now code secret options =
     (\<exists>cleanSecret. validateAndCleanSecret secret = Inr cleanSecret
        \<and> check (totpOptions options) now code cleanSecret = Inr True)"
  by (simp add: validateTOTP_with_def split: sum.splits)

section \<open>Provisioning URIs: required fields\<close>

lemma validateSecret_iff:
  "validateSecret secret \<longleftrightarrow> (\<exists>cleaned. validateAndCleanSecret secret = Inr cleaned)"
proof -
  have "validateAndCleanSecret secret = Inr cleaned \<Longrightarrow> cleaned \<noteq> []" for cleaned
    using validate_Inr[of secret cleaned] by (auto simp: test_base32_def)
  then show ?thesis
    by (auto simp: validateSecret_def split: sum.splits)
qed

text \<open>
  C7. For a URI that the URL constructor accepts, parsing fails with the message of the
  protocol check when the scheme is not \<open>otpauth\<close>, with the message of the type check
  when the host, in lower case, is neither \<open>totp\<close> nor \<open>hotp\<close>, with "Secret parameter
  is required" when \<open>secret\<close> is absent or empty and with "Invalid secret format" when
  it does not pass secret validation; and it fails with one of these four messages in no
  other case.
\<close>

theorem parseOTPAuthURL_required:
  assumes "new_URL url = Some u"
  shows
    "(protocol u \<noteq> ''otpauth:'' \<longrightarrow>
        parseOTPAuthURL url = Inl (InvalidOTPAuthURL InvalidProtocol))
     \<and> (protocol u = ''otpauth:'' \<and> toLowerCase (hostname u) \<notin> {''totp'', ''hotp''} \<longrightarrow>
        parseOTPAuthURL url = Inl (InvalidOTPAuthURL UnsupportedType))
     \<and> (protocol u = ''otpauth:'' \<and> toLowerCase (hostname u) \<in> {''totp'', ''hotp''}
          \<and> params_get (searchParams u) ''secret'' \<in> {None, Some []} \<longrightarrow>
        parseOTPAuthURL url = Inl (InvalidOTPAuthURL SecretRequired))
     \<and> (protocol u = ''otpauth:'' \<and> toLowerCase (hostname u) \<in> {''totp'', ''hotp''}
          \<and> (\<exists>secret. params_get (searchParams u) ''secret'' = Some secret \<and> secret \<noteq> []
                \<and> \<not> validateSecret secret) \<longrightarrow>
        parseOTPAuthURL url = Inl (InvalidOTPAuthURL InvalidSecretFormat))
     \<and> (protocol u = ''otpauth:'' \<and> toLowerCase (hostname u) \<in> {''totp'', ''hotp''}
          \<and> (\<exists>secret. params_get (searchParams u) ''secret'' = Some secret \<and> validateSecret secret) \<longrightarrow>
        parseOTPAuthURL url \<notin> Inl ` InvalidOTPAuthURL `
          {InvalidURL, InvalidProtocol, UnsupportedType, SecretRequired, InvalidSecretFormat})"
proof -
  have empty: "\<not> validateSecret []"
    by (simp add: validateSecret_def validateAndCleanSecret_def)
  show ?thesis
    using assms empty
    by (auto simp: parseOTPAuthURL_def Let_def split: option.splits)
qed


theorem parseOTPAuthURL_required_witness:
  "parseOTPAuthURL ''otpauth://totp/X?secret=AAAA'' = Inl (InvalidOTPAuthURL InvalidSecretFormat)
   \<and> parseOTPAuthURL ''otpauth://totp/X?secret=JBSWY3DPEHPK3PXP'' \<noteq> Inl (InvalidOTPAuthURL InvalidProtocol)"
proof -
  have u: "new_URL ''otpauth://totp/X?secret=AAAA'' =
    Some \<lparr>protocol = ''otpauth:'', hostname = ''totp'', pathname = ''/X'',
           searchParams = [(''secret'', ''AAAA'')]\<rparr>"
    by code_simp
  have v: "new_URL ''otpauth://totp/X?secret=JBSWY3DPEHPK3PXP'' =
    Some \<lparr>protocol = ''otpauth:'', hostname = ''totp'', pathname = ''/X'',
           searchParams = [(''secret'', ''JBSWY3DPEHPK3PXP'')]\<rparr>"
    by code_simp
  have a: "\<not> validateSecret ''AAAA''" and b: "validateSecret ''JBSWY3DPEHPK3PXP''"
    by code_simp+
  have l: "toLowerCase ''totp'' = ''totp''"
    by code_simp
  show ?thesis
    using parseOTPAuthURL_required[OF u] parseOTPAuthURL_required[OF v] a b l
    by (simp add: params_get_def image_iff)
qed

section \<open>Provisioning URIs: optional fields\<close>

lemma parseOTPAuthURL_Inr:
  assumes "parseOTPAuthURL url = Inr r"
  obtains u secret pathLabel where "new_URL url = Some u"
    and "params_get (searchParams u) ''secret'' = Some secret"
    and "decodeURIComponent (drop 1 (pathname u)) = Some pathLabel"
    and "r = qr_result u secret pathLabel"
  using assms by (auto simp: parseOTPAuthURL_def split: option.splits if_splits)

lemma qr_result_normalized:
  "qr_digits (qr_result u secret pathLabel) \<in> {Num 6, Num 7, Num 8}"
  "qr_algorithm (qr_result u secret pathLabel) \<in> {''SHA1'', ''SHA256'', ''SHA512''}"
  "qr_period (qr_result u secret pathLabel) = NaN
     \<or> (\<exists>p. qr_period (qr_result u secret pathLabel) = Num p \<and> 1 \<le> p \<and> p \<le> 300)"
  by (simp_all add: qr_result_def Let_def split: jsnum.splits)

text \<open>
  C5. A \<open>period\<close> parameter that is not a number is parsed to NaN, and the range check
  of the period, written with two comparisons, lets NaN through: the descriptor has
  period NaN, not 30.
\<close>

theorem parseOTPAuthURL_period_NaN:
  "parseOTPAuthURL ''otpauth://totp/X?secret=JBSWY3DPEHPK3PXP&period=abc'' =
     Inr \<lparr> qr_type = ''totp'', qr_label = ''X'', qr_secret = ''JBSWY3DPEHPK3PXP'',
           qr_issuer = None, qr_algorithm = ''SHA1'', qr_digits = Num 6, qr_period = NaN,
           qr_counter = None \<rparr>"
  by code_simp

section \<open>Provisioning URIs: the label\<close>







section \<open>The engine: codes\<close>

declare decimal.simps [simp del]

lemma is_digit_digit_char: "d < 10 \<Longrightarrow> is_digit (digit_char d)"
  by (simp add: is_digit_def digit_char_def ord_def)

lemma decimal_digits: "list_all is_digit (decimal n)"
proof (induction n rule: decimal.induct)
  case (1 n)
  show ?case
  proof (cases "n < 10")
    case True
    then show ?thesis
      by (subst decimal.simps) (simp add: is_digit_digit_char)
  next
    case False
    with 1 show ?thesis
      by (subst decimal.simps) (simp add: is_digit_digit_char)
  qed
qed

lemma decimal_length: "n < 10 ^ k \<Longrightarrow> 0 < k \<Longrightarrow> length (decimal n) \<le> k"
proof (induction n arbitrary: k rule: decimal.induct)
  case (1 n)
  show ?case
  proof (cases "n < 10")
    case True
    with 1(3) show ?thesis
      by (subst decimal.simps) simp
  next
    case False
    then obtain j where k: "k = Suc j"
      using 1(3) by (cases k) simp_all
    have "0 < j"
      using False 1(2) k by (cases j) simp_all
    moreover have "n div 10 < 10 ^ j"
      using 1(2) k by (simp add: less_mult_imp_div_less mult.commute)
    ultimately have "length (decimal (n div 10)) \<le> j"
      using 1(1)[OF False] by simp
    with False k show ?thesis
      by (subst decimal.simps) simp
  qed
qed

lemma list_all_replicate_same: "P c \<Longrightarrow> list_all P (replicate n c)"
  by (induction n) simp_all

lemma padStart_length: "length s \<le> w \<Longrightarrow> length (padStart w c s) = w"
  by (simp add: padStart_def)

lemma computeHOTP_shape:
  assumes "0 < digits"
  shows "length (computeHOTP key counter alg digits) = digits"
    and "list_all is_digit (computeHOTP key counter alg digits)"
proof -
  let ?v = "dynamic_truncation (hmac alg key (counter_bytes counter)) mod 10 ^ digits"
  have "length (decimal ?v) \<le> digits"
    using assms by (intro decimal_length) simp_all
  then show "length (computeHOTP key counter alg digits) = digits"
    by (simp add: computeHOTP_def padStart_length)
  have "is_digit CHR ''0''"
    by (simp add: is_digit_def ord_def)
  then show "list_all is_digit (computeHOTP key counter alg digits)"
    by (simp add: computeHOTP_def padStart_def decimal_digits list_all_replicate_same)
qed

section \<open>The engine: decoding a validated secret\<close>

lemma base32_bytes_length:
  "nbits < 8 \<Longrightarrow> length (base32_bytes acc nbits vs) = (nbits + 5 * length vs) div 8"
proof (induction vs arbitrary: acc nbits)
  case Nil
  then show ?case by simp
next
  case (Cons v vs)
  show ?case
  proof (cases "8 \<le> nbits + 5")
    case True
    then have "length (base32_bytes (take_bit (nbits + 5 - 8) (acc * 32 + v)) (nbits + 5 - 8) vs)
        = (nbits + 5 - 8 + 5 * length vs) div 8"
      using Cons.prems by (intro Cons.IH) simp
    with True show ?thesis by simp
  next
    case False
    then have "length (base32_bytes (acc * 32 + v) (nbits + 5) vs) = (nbits + 5 + 5 * length vs) div 8"
      by (intro Cons.IH) simp
    with False show ?thesis by (simp add: add.assoc)
  qed
qed

lemma strip_padding_split:
  assumes "list_all is_base32_char body" and "list_all (\<lambda>c. c = CHR ''='') pad"
  shows "strip_padding (body @ pad) = body"
proof -
  have ne: "\<not> is_base32_char CHR ''=''"
    by (simp add: is_base32_char_def ord_def)
  have "list_all (\<lambda>c. \<not> (c = CHR ''='')) (rev body)"
    using assms(1) by (induction body) (auto simp: ne)
  moreover have "list_all (\<lambda>c. c = CHR ''='') (rev pad)"
    using assms(2) by simp
  ultimately have "dropWhile (\<lambda>c. c = CHR ''='') (rev pad @ rev body) = rev body"
    using takeWhile_dropWhile_split[of "\<lambda>c. c = CHR ''=''" "rev pad" "rev body"] by simp
  then show ?thesis
    by (simp add: strip_padding_def)
qed

lemma base32_value_Some: "is_base32_char c \<Longrightarrow> base32_value c \<noteq> None"
  by (auto simp: base32_value_def is_base32_char_def)

lemma validated_secret_decodes:
  assumes "validateAndCleanSecret secret = Inr cleanSecret"
  obtains key where "base32_decode cleanSecret = Some key" and "key \<noteq> []"
proof -
  from validate_Inr[OF assms] have t: "test_base32 cleanSecret"
    and l: "8 \<le> length (strip_padding cleanSecret)"
    by blast+
  from t obtain body pad where c: "cleanSecret = body @ pad"
    and b: "list_all is_base32_char body" and p: "list_all (\<lambda>c. c = CHR ''='') pad"
    unfolding test_base32_iff by blast
  have s: "strip_padding cleanSecret = body"
    unfolding c by (rule strip_padding_split[OF b p])
  have "None \<notin> set (map base32_value body)"
    using b by (induction body) (use base32_value_Some in force)+
  then have d: "base32_decode cleanSecret = Some (base32_bytes 0 0 (map the (map base32_value body)))"
    by (simp add: base32_decode_def s)
  have "length (base32_bytes 0 0 (map the (map base32_value body))) = (5 * length body) div 8"
    by (simp add: base32_bytes_length)
  moreover have "5 \<le> (5 * length body) div 8"
    using l s by simp
  ultimately have "base32_bytes 0 0 (map the (map base32_value body)) \<noteq> []"
    by auto
  with d that show ?thesis by blast
qed


section \<open>The engine: HMAC over two blocks\<close>

declare chunks.simps [simp del] be_words.simps [simp del]

lemma be_bytes_length [simp]: "length (be_bytes n x) = n"
  by (induction n) simp_all

lemma counter_bytes_length [simp]: "length (counter_bytes c) = 8"
  by (simp add: counter_bytes_def)

























section \<open>Generation and validation\<close>




lemma generateTOTP_iff:
  "generateTOTP now secret options = Inr code \<longleftrightarrow>
     (\<exists>cleanSecret key. validateAndCleanSecret secret = Inr cleanSecret
        \<and> base32_decode cleanSecret = Some key
        \<and> computeHOTP key (timeStepCounter now (lib_step (totpOptions options)))
              (lib_algorithm (totpOptions options)) (nat (lib_digits (totpOptions options))) = code)"
proof (cases "validateAndCleanSecret secret")
  case (Inl e)
  then show ?thesis
    by (simp add: generateTOTP_def generateTOTP_with_def)
next
  case (Inr cleanSecret)
  then obtain key where "base32_decode cleanSecret = Some key" and "key \<noteq> []"
    by (rule validated_secret_decodes)
  with Inr show ?thesis
    by (simp add: generateTOTP_def generateTOTP_with_def totp_generate_def)
qed






text \<open>
  C9. For a secret that passes validation and digits 6, 7 or 8, \<^verbatim>\<open>generateTOTP\<close> returns
  a code at every time and with every algorithm; the code has exactly \<open>digits\<close>
  characters, all of them decimal digits. The truncated value 42 with 6 digits is written
  \<open>000042\<close>.
\<close>

theorem generateTOTP_width:
  assumes "validateAndCleanSecret secret = Inr cleanSecret"
    and "opt_field opt_digits options = Some d" and "d \<in> {6, 7, 8}"
  shows "(\<exists>code. generateTOTP now secret options = Inr code
            \<and> int (length code) = d \<and> list_all is_digit code)
     \<and> padStart 6 (CHR ''0'') (decimal (42 mod 10 ^ 6)) = ''000042''"
proof -
  obtain key where key: "base32_decode cleanSecret = Some key"
    using validated_secret_decodes[OF assms(1)] by blast
  have dg: "lib_digits (totpOptions options) = d"
    using assms(2,3) by (auto simp: totpOptions_def or_number_def)
  let ?code = "computeHOTP key (timeStepCounter now (lib_step (totpOptions options)))
              (lib_algorithm (totpOptions options)) (nat d)"
  have pos: "0 < nat d"
    using assms(3) by auto
  have "generateTOTP now secret options = Inr ?code"
    unfolding generateTOTP_iff using assms(1) key dg by simp
  moreover have "int (length ?code) = d"
    using computeHOTP_shape(1)[OF pos] assms(3) by auto
  moreover have "list_all is_digit ?code"
    by (rule computeHOTP_shape(2)[OF pos])
  moreover have "padStart 6 (CHR ''0'') (decimal (42 mod 10 ^ 6)) = ''000042''"
    by (simp add: hotp_fmt replicate_numeral_pred replicate_one)
  ultimately show ?thesis by blast
qed

theorem generateTOTP_width_witness:
  "\<exists>code. generateTOTP 59 ''JBSWY3DPEHPK3PXP''
       (Some \<lparr>opt_algorithm = Some ''SHA256'', opt_digits = Some 7, opt_period = None,
              opt_window = None\<rparr>) = Inr code
     \<and> int (length code) = 7 \<and> list_all is_digit code"
proof -
  have v: "validateAndCleanSecret ''JBSWY3DPEHPK3PXP'' = Inr ''JBSWY3DPEHPK3PXP''"
    by (simp add: secret_eval)
  show ?thesis
    using generateTOTP_width[OF v, of "Some \<lparr>opt_algorithm = Some ''SHA256'', opt_digits = Some 7,
      opt_period = None, opt_window = None\<rparr>" 7 59]
    by (simp add: opt_field_def)
qed

section \<open>RFC 6238 test vectors\<close>





















































































section \<open>Two neighbouring time steps with one code\<close>











section \<open>Acceptance around the generation time\<close>






end
